theory Spec2Isabelle
  imports Complex_Main "HOL-Library.Word"
begin

section \<open>Energy Harvester Management System: the registry of \<open>src/index.ts\<close>\<close>

text \<open>
  The canister keeps one stable map from identifiers to harvesters and exposes create,
  read, update, delete, search and two aggregates over it. Every exported function
  returns azle's \<open>Result\<close>; the functions that write the map are modelled by explicit
  state passing: they take the map and return the result together with the map after
  the call.
\<close>

subsection \<open>Data model\<close>

text \<open>azle's \<open>Result\<close> type: \<open>Result.Ok(v)\<close> or \<open>Result.Err(message)\<close>.\<close>

datatype ('a, 'e) Result = Ok 'a | Err 'e

text \<open>
  \<open>type EnergyRecord\<close> (lines 5 to 10). The field \<open>id\<close> is named \<open>id_r\<close> here, since
  \<open>id\<close> is the identity function of HOL. \<open>powerGenerated\<close> is a JavaScript number, an
  IEEE double, whose addition rounds and is not associative. The model leaves the type
  of numbers open: \<open>'n\<close> is any type with a zero and an addition (for the average also
  a one and a division), and no law about them is assumed. What is proved therefore
  holds of the doubles with their own operations, as it does of the reals.
  \<open>timestamp\<close> is a \<open>nat64\<close>.
\<close>

record 'n EnergyRecord =
  id_r :: string
  source :: string
  powerGenerated :: 'n
  timestamp :: "64 word"

text \<open>\<open>type EnergyHarvester\<close> (lines 13 to 18); its \<open>id\<close> is named \<open>id_h\<close>.\<close>

record 'n EnergyHarvester =
  id_h :: string
  name :: string
  location :: string
  energyRecords :: "'n EnergyRecord list"

text \<open>
  Modelled from the spec: \<open>EnergyPayload\<close>, the parameter type of
  \<open>updateEnergyHarvester\<close>, is used by the source but declared nowhere in it. The
  specification (section 6, operation update) and the documentation that follows the
  code give it the fields name, location and energyRecords. The fields carry the suffix
  \<open>_p\<close> to keep them apart from those of \<open>EnergyHarvester\<close>.
\<close>

record 'n EnergyPayload =
  name_p :: string
  location_p :: string
  energyRecords_p :: "'n EnergyRecord list"

subsection \<open>The store\<close>

text \<open>
  Modelled from the spec: \<open>energyHarvesterStorage\<close> (line 21) is a
  \<open>StableBTreeMap<string, EnergyHarvester>\<close> of the azle library, whose code is not part
  of the repository. The model follows the store contract of the specification
  (section 4.1): \<open>insert\<close> is an unconditional insert-or-replace, \<open>get\<close> and \<open>remove\<close>
  answer with an optional value (azle's \<open>Opt\<close>, here \<open>option\<close>), \<open>values\<close> lists every
  stored entity in the store's iteration order.
  The map is an association list in iteration order. Replacing a key keeps its place;
  where the B-tree puts a new key is implementation-defined, the model puts it last.
  The size bounds of the map (44 bytes a key, 1024 bytes a value) are not modelled, so
  no store operation fails.
\<close>

type_synonym 'n StableBTreeMap = "(string \<times> 'n EnergyHarvester) list"

fun insert_btree ::
  "string \<Rightarrow> 'n EnergyHarvester \<Rightarrow> 'n StableBTreeMap \<Rightarrow> 'n StableBTreeMap" where
  "insert_btree k v [] = [(k, v)]"
| "insert_btree k v ((k', v') # m) =
     (if k' = k then (k, v) # m else (k', v') # insert_btree k v m)"

fun get_btree :: "string \<Rightarrow> 'n StableBTreeMap \<Rightarrow> 'n EnergyHarvester option" where
  "get_btree k [] = None"
| "get_btree k ((k', v') # m) = (if k' = k then Some v' else get_btree k m)"

definition remove_btree ::
  "string \<Rightarrow> 'n StableBTreeMap \<Rightarrow> 'n EnergyHarvester option \<times> 'n StableBTreeMap" where
  "remove_btree k m = (get_btree k m, filter (\<lambda>(k', v'). k' \<noteq> k) m)"

definition values_btree :: "'n StableBTreeMap \<Rightarrow> 'n EnergyHarvester list" where
  "values_btree m = map snd m"

subsection \<open>Creating and reading\<close>

text \<open>
  The object literal \<open>{ id: harvesterId, ...payload }\<close> of line 38 defines its properties
  from left to right: first \<open>id\<close>, then every own property of \<open>payload\<close>, each replacing
  a property of the same name defined before it. \<open>payload\<close> is an \<open>EnergyHarvester\<close>, so
  it has the four properties \<open>id\<close>, \<open>name\<close>, \<open>location\<close> and \<open>energyRecords\<close>.
  \<open>object_spread obj src\<close> is \<open>obj\<close> after the spread of \<open>src\<close>.
\<close>

definition object_spread ::
  "'n EnergyHarvester \<Rightarrow> 'n EnergyHarvester \<Rightarrow> 'n EnergyHarvester" where
  "object_spread obj src =
     obj\<lparr>id_h := id_h src, name := name src, location := location src,
         energyRecords := energyRecords src\<rparr>"

text \<open>
  \<open>addEnergyHarvester\<close> (lines 29 to 50). \<open>harvesterId\<close> is the string that the call
  \<open>uuidv4()\<close> of line 37 returns: the identifier source is outside the program, so its
  answer is a parameter. \<open>!payload.name\<close> holds of a string exactly when it is empty.
  Before the spread the literal has the property \<open>id\<close> alone; the record's other fields
  are empty at that point and receive their values from the spread. Every identifier
  of the \<open>try\<close> block is bound and the store does not fail, so the \<open>catch\<close> of line 47
  is not taken; the same holds of the lookups, the search and the aggregates below.
\<close>

definition addEnergyHarvester ::
  "string \<Rightarrow> 'n EnergyHarvester \<Rightarrow> 'n StableBTreeMap \<Rightarrow>
     ('n EnergyHarvester, string) Result \<times> 'n StableBTreeMap" where
  "addEnergyHarvester harvesterId payload s =
     (if name payload = [] \<or> location payload = [] \<or> length (energyRecords payload) = 0
      then (Err ''Missing required fields in the energy harvester object'', s)
      else
        let newHarvester =
              object_spread
                \<lparr>id_h = harvesterId, name = [], location = [], energyRecords = []\<rparr>
                payload
        in (Ok newHarvester, insert_btree (id_h newHarvester) newHarvester s))"

text \<open>\<open>getEnergyHarvesters\<close> (lines 57 to 65).\<close>

definition getEnergyHarvesters ::
  "'n StableBTreeMap \<Rightarrow> ('n EnergyHarvester list, string) Result" where
  "getEnergyHarvesters s = Ok (values_btree s)"

text \<open>
  \<open>getEnergyHarvester\<close> (lines 73 to 85). Line 81 wraps what \<open>get\<close> answers, an \<open>Opt\<close>,
  in \<open>Result.Ok\<close> as it is; the function does not call \<open>match\<close>.
\<close>

definition getEnergyHarvester ::
  "string \<Rightarrow> 'n StableBTreeMap \<Rightarrow> ('n EnergyHarvester option, string) Result" where
  "getEnergyHarvester i s =
     (if i = [] then Err ''Invalid ID for getting an energy harvester.''
      else Ok (get_btree i s))"

subsection \<open>The identifiers the module binds\<close>

text \<open>
  \<open>updateEnergyHarvester\<close>, \<open>deleteEnergyHarvester\<close> and \<open>getEnergyRecords\<close> call a function
  \<open>match\<close>. The source neither imports nor declares it: line 1 imports \<open>$query\<close>,
  \<open>$update\<close>, \<open>Record\<close>, \<open>StableBTreeMap\<close>, \<open>Vec\<close>, \<open>Result\<close>, \<open>nat64\<close> and \<open>ic\<close>, line 2 imports
  \<open>uuidv4\<close>, and the module declares its store and its functions. \<open>match\<close> is no global
  of JavaScript either. \<open>module_scope\<close> lists the identifiers that the module binds.
\<close>

definition module_scope :: "string list" where
  "module_scope =
     [''$query'', ''$update'', ''Record'', ''StableBTreeMap'', ''Vec'', ''Result'', ''nat64'',
      ''ic'', ''uuidv4'', ''energyHarvesterStorage'', ''addEnergyHarvester'',
      ''getEnergyHarvesters'', ''getEnergyHarvester'', ''isValidUUID'',
      ''updateEnergyHarvester'', ''searchEnergyHarvesters'', ''deleteEnergyHarvester'',
      ''getEnergyRecords'', ''getTotalPowerGenerated'', ''getAveragePowerGenerated'']"

text \<open>
  A call \<open>match(arg, cases)\<close> first resolves the identifier \<open>match\<close>, and only then
  evaluates its arguments. The three functions take the scope they run in as the
  parameter \<open>scope\<close>, the list of the identifiers bound there; the source as it is runs
  in \<open>module_scope\<close>. Where \<open>scope\<close> does not bind \<open>match\<close>, resolving it throws a
  ReferenceError before the store is read or written, and the \<open>catch\<close> of the function
  answers with its message followed by the text of the error; that text is the
  engine's, so it is the parameter \<open>error\<close> (the value of \<open>${error}\<close> in the template of the
  \<open>catch\<close>). Where \<open>scope\<close> binds \<open>match\<close>, as the import line of the documentation that
  follows the code would, it is azle's \<open>match\<close> on an \<open>Opt\<close>: a case distinction on
  \<open>option\<close>.
\<close>

subsection \<open>Updating and deleting\<close>

text \<open>\<open>updateEnergyHarvester\<close> (lines 101 to 134).\<close>

definition updateEnergyHarvester ::
  "string list \<Rightarrow> string \<Rightarrow> string \<Rightarrow> 'n EnergyPayload \<Rightarrow> 'n StableBTreeMap \<Rightarrow>
     ('n EnergyHarvester, string) Result \<times> 'n StableBTreeMap" where
  "updateEnergyHarvester scope error i payload s =
     (if i = [] then (Err ''Invalid ID for updating an energy harvester.'', s)
      else if name_p payload = [] \<or> location_p payload = []
              \<or> length (energyRecords_p payload) = 0
      then (Err ''Missing required fields in the energy harvester object'', s)
      else if ''match'' \<notin> set scope
      then (Err (''Error updating energy harvester: '' @ error), s)
      else
        (case get_btree i s of
           Some existingHarvester \<Rightarrow>
             let updatedHarvester =
                   existingHarvester\<lparr>name := name_p payload, location := location_p payload,
                                     energyRecords := energyRecords_p payload\<rparr>
             in (Ok updatedHarvester, insert_btree i updatedHarvester s)
         | None \<Rightarrow> (Err (''Energy harvester with id='' @ i @ '' does not exist''), s)))"

text \<open>\<open>deleteEnergyHarvester\<close> (lines 163 to 178).\<close>

definition deleteEnergyHarvester ::
  "string list \<Rightarrow> string \<Rightarrow> string \<Rightarrow> 'n StableBTreeMap \<Rightarrow>
     ('n EnergyHarvester, string) Result \<times> 'n StableBTreeMap" where
  "deleteEnergyHarvester scope error i s =
     (if i = [] then (Err ''Invalid ID for deleting an energy harvester.'', s)
      else if ''match'' \<notin> set scope
      then (Err (''Error deleting energy harvester: '' @ error), s)
      else
        (case remove_btree i s of
           (Some deletedHarvester, s') \<Rightarrow> (Ok deletedHarvester, s')
         | (None, s') \<Rightarrow> (Err (''Energy harvester with id='' @ i @ '' does not exist''), s')))"

text \<open>\<open>getEnergyRecords\<close> (lines 186 to 201).\<close>

definition getEnergyRecords ::
  "string list \<Rightarrow> string \<Rightarrow> string \<Rightarrow> 'n StableBTreeMap \<Rightarrow>
     ('n EnergyRecord list, string) Result" where
  "getEnergyRecords scope error i s =
     (if i = [] then Err ''Invalid ID for retrieving energy records.''
      else if ''match'' \<notin> set scope
      then Err (''Error retrieving energy records: '' @ error)
      else
        (case get_btree i s of
           Some harvester \<Rightarrow> Ok (energyRecords harvester)
         | None \<Rightarrow> Err (''Energy harvester with id='' @ i @ '' not found'')))"

subsection \<open>Searching\<close>

text \<open>
  \<open>String.prototype.toLowerCase\<close>, on the letters A to Z; every other character is left
  as it is (the case mapping of characters beyond ASCII is outside the model).
\<close>

definition toLowerCase_char :: "char \<Rightarrow> char" where
  "toLowerCase_char c =
     (let n = of_char c :: nat
      in if 65 \<le> n \<and> n \<le> 90 then char_of (n + 32) else c)"

definition toLowerCase :: "string \<Rightarrow> string" where
  "toLowerCase str = map toLowerCase_char str"

text \<open>
  \<open>String.prototype.includes\<close>: \<open>str.includes(q)\<close> looks for \<open>q\<close> at every position of
  \<open>str\<close>, from the left. \<open>startsWith str q\<close> compares \<open>q\<close> with the characters at the
  front of \<open>str\<close>.
\<close>

fun startsWith :: "string \<Rightarrow> string \<Rightarrow> bool" where
  "startsWith str [] = True"
| "startsWith [] (c # q) = False"
| "startsWith (d # str) (c # q) = (d = c \<and> startsWith str q)"

fun includes_str :: "string \<Rightarrow> string \<Rightarrow> bool" where
  "includes_str [] q = (q = [])"
| "includes_str (d # str) q = (startsWith (d # str) q \<or> includes_str str q)"

text \<open>\<open>searchEnergyHarvesters\<close> (lines 142 to 155).\<close>

definition searchEnergyHarvesters ::
  "string \<Rightarrow> 'n StableBTreeMap \<Rightarrow> ('n EnergyHarvester list, string) Result" where
  "searchEnergyHarvesters query s =
     (let lowerCaseQuery = toLowerCase query;
          filteredHarvesters =
            filter
              (\<lambda>harvester.
                 includes_str (toLowerCase (name harvester)) lowerCaseQuery \<or>
                 includes_str (toLowerCase (location harvester)) lowerCaseQuery)
              (values_btree s)
      in Ok filteredHarvesters)"

subsection \<open>Aggregates\<close>

text \<open>
  \<open>getTotalPowerGenerated\<close> (lines 208 to 221). Each \<open>forEach\<close> is a left fold over the
  sequence it walks, with the variable \<open>totalPower\<close> as the accumulator; \<open>0\<close> and \<open>+\<close> are
  the zero and the addition of the numbers.
\<close>

definition getTotalPowerGenerated ::
  "('n::{zero,plus}) StableBTreeMap \<Rightarrow> ('n, string) Result" where
  "getTotalPowerGenerated s =
     (let totalPower =
            foldl
              (\<lambda>totalPower harvester.
                 foldl (\<lambda>totalPower record. totalPower + powerGenerated record)
                   totalPower (energyRecords harvester))
              0 (values_btree s)
      in Ok totalPower)"

text \<open>
  The value of a number variable that starts at \<open>0\<close> and is incremented \<open>n\<close> times, as
  \<open>totalRecords\<close> is by \<open>totalRecords++\<close> at line 236.
\<close>

fun number_of_count :: "nat \<Rightarrow> 'n::{zero,one,plus}" where
  "number_of_count 0 = 0"
| "number_of_count (Suc n) = number_of_count n + 1"

text \<open>
  \<open>getAveragePowerGenerated\<close> (lines 228 to 247). The two variables \<open>totalPower\<close> and
  \<open>totalRecords\<close> are the accumulator of the folds. The model keeps the number of
  increments of \<open>totalRecords\<close>, a natural number: the test \<open>totalRecords === 0\<close> of line
  239 is taken on it (a counter that starts at 0 and is only incremented by 1 is 0
  exactly when nothing was counted), and the division of line 242 divides by the number
  that the counter holds after that many increments.
\<close>

definition getAveragePowerGenerated ::
  "('n::{zero,one,plus,inverse}) StableBTreeMap \<Rightarrow> ('n, string) Result" where
  "getAveragePowerGenerated s =
     (let (totalPower, totalRecords) =
            foldl
              (\<lambda>acc harvester.
                 foldl
                   (\<lambda>(totalPower, totalRecords) record.
                      (totalPower + powerGenerated record, totalRecords + 1))
                   acc (energyRecords harvester))
              (0, 0 :: nat) (values_btree s)
      in if totalRecords = 0 then Err ''No energy records found''
         else
           let averagePower = totalPower / number_of_count totalRecords
           in Ok averagePower)"

subsection \<open>Reachable stores\<close>

text \<open>
  The map starts empty (line 21), and only \<open>addEnergyHarvester\<close>, \<open>updateEnergyHarvester\<close>
  and \<open>deleteEnergyHarvester\<close> write it. A store is reachable when some sequence of such
  calls, with any arguments and any answers of the identifier source, leads to it.
  The calls may run in any scope: those of the source as it is, where \<open>match\<close> is not
  bound, are among them, and so are those of a module that imports \<open>match\<close>.
\<close>

inductive reachable :: "'n StableBTreeMap \<Rightarrow> bool" where
  reachable_init: "reachable []"
| reachable_add: "reachable s \<Longrightarrow> reachable (snd (addEnergyHarvester harvesterId payload s))"
| reachable_update:
    "reachable s \<Longrightarrow> reachable (snd (updateEnergyHarvester scope error i payload s))"
| reachable_delete: "reachable s \<Longrightarrow> reachable (snd (deleteEnergyHarvester scope error i s))"

subsection \<open>Notions of the specification and example data\<close>

text \<open>
  The specification speaks of "every record of every harvester currently in the
  store": the records of the stored harvesters, in iteration order.
\<close>

definition records_of_store :: "'n StableBTreeMap \<Rightarrow> 'n EnergyRecord list" where
  "records_of_store s = concat (map energyRecords (values_btree s))"

text \<open>
  Example data, after the scenario and the aggregation example of the specification
  (section 8): the harvester "Turbine A" with one wind record of 150 watts, a payload
  and a harvester without records, and a store of two harvesters with records of 10
  and 20 watts and of 30 watts. The
  examples take real numbers for the numbers; on these small whole numbers the
  operations of the doubles give the same values. \<open>example_error\<close> is the text of the
  ReferenceError as V8 renders it.
\<close>

definition example_error :: string where
  "example_error = ''ReferenceError: match is not defined''"

definition example_record :: "real \<Rightarrow> real EnergyRecord" where
  "example_record w = \<lparr>id_r = ''r1'', source = ''wind'', powerGenerated = w, timestamp = 1000\<rparr>"

definition example_harvester :: "string \<Rightarrow> real EnergyHarvester" where
  "example_harvester i =
     \<lparr>id_h = i, name = ''Turbine A'', location = ''North Field'',
      energyRecords = [example_record 150]\<rparr>"

definition example_payload :: "real EnergyPayload" where
  "example_payload =
     \<lparr>name_p = ''Solar Array 1'', location_p = ''Roof'',
      energyRecords_p = [example_record 30]\<rparr>"

definition example_payload_no_records :: "real EnergyPayload" where
  "example_payload_no_records =
     \<lparr>name_p = ''Solar Array 1'', location_p = ''Roof'', energyRecords_p = []\<rparr>"

definition example_idle :: "real EnergyHarvester" where
  "example_idle =
     \<lparr>id_h = ''h0'', name = ''Turbine A'', location = ''North Field'', energyRecords = []\<rparr>"

definition example_store :: "real StableBTreeMap" where
  "example_store =
     [(''h1'', \<lparr>id_h = ''h1'', name = ''Turbine A'', location = ''North Field'',
               energyRecords = [example_record 10, example_record 20]\<rparr>),
      (''h2'', \<lparr>id_h = ''h2'', name = ''Solar Array 1'', location = ''Roof'',
               energyRecords = [example_record 30]\<rparr>)]"

section \<open>Properties\<close>

subsection \<open>The store\<close>

lemma get_btree_insert_same: "get_btree k (insert_btree k v m) = Some v"
  by (induction m) auto

lemma get_btree_insert_other: "k' \<noteq> k \<Longrightarrow> get_btree k' (insert_btree k v m) = get_btree k' m"
  by (induction m) auto

lemma get_btree_removed: "get_btree k (filter (\<lambda>(k', v'). k' \<noteq> k) m) = None"
  by (induction m) auto

lemma get_btree_filter_other:
  "k' \<noteq> k \<Longrightarrow> get_btree k' (filter (\<lambda>(k'', v'). k'' \<noteq> k) m) = get_btree k' m"
  by (induction m) auto

lemma get_btree_mem: "get_btree k m = Some v \<Longrightarrow> (k, v) \<in> set m"
  by (induction m) (auto split: if_splits)

lemma set_insert_btree: "set (insert_btree k v m) \<subseteq> insert (k, v) (set m)"
  by (induction m) (auto split: if_splits)

subsection \<open>The source as it is does not bind \<open>match\<close>\<close>

lemma match_unbound: "''match'' \<notin> set module_scope"
  by (simp add: module_scope_def)

text \<open>
  So, in the source as it is, every call of the three functions that gets past the
  guards is answered by the \<open>catch\<close>, and the store is neither read nor written.
\<close>

lemma updateEnergyHarvester_as_is:
  "updateEnergyHarvester module_scope error i payload s =
     (if i = [] then (Err ''Invalid ID for updating an energy harvester.'', s)
      else if name_p payload = [] \<or> location_p payload = [] \<or> energyRecords_p payload = []
      then (Err ''Missing required fields in the energy harvester object'', s)
      else (Err (''Error updating energy harvester: '' @ error), s))"
  by (simp add: updateEnergyHarvester_def match_unbound)

lemma deleteEnergyHarvester_as_is:
  "deleteEnergyHarvester module_scope error i s =
     (if i = [] then (Err ''Invalid ID for deleting an energy harvester.'', s)
      else (Err (''Error deleting energy harvester: '' @ error), s))"
  by (simp add: deleteEnergyHarvester_def match_unbound)

lemma getEnergyRecords_as_is:
  "getEnergyRecords module_scope error i s =
     (if i = [] then Err ''Invalid ID for retrieving energy records.''
      else Err (''Error retrieving energy records: '' @ error))"
  by (simp add: getEnergyRecords_def match_unbound)

subsection \<open>Creation\<close>

text \<open>
  The spread of line 40 comes after \<open>id: harvesterId\<close> and \<open>payload\<close> has an \<open>id\<close> of its
  own, so the new harvester is the payload itself, whatever \<open>harvesterId\<close> is.
\<close>

lemma object_spread_all: "object_spread obj src = src"
  by (cases obj, cases src) (simp add: object_spread_def)

lemma addEnergyHarvester_valid:
  assumes "name payload \<noteq> []" "location payload \<noteq> []" "energyRecords payload \<noteq> []"
  shows "addEnergyHarvester harvesterId payload s =
           (Ok payload, insert_btree (id_h payload) payload s)"
  using assms by (simp add: addEnergyHarvester_def object_spread_all)

text \<open>
  C2. The claim: the harvester that \<open>addEnergyHarvester\<close> returns, and the key it is stored
  under, carry the identifier minted by the identifier source, and no id inside the
  payload determines it. On the code, with \<open>uuid-1\<close> as the minted identifier and a valid
  payload whose \<open>id\<close> is \<open>chosen-by-caller\<close>, the returned harvester and its key carry the
  payload's id; the minted identifier appears nowhere.
\<close>

theorem addEnergyHarvester_keeps_caller_id:
  "addEnergyHarvester ''uuid-1'' (example_harvester ''chosen-by-caller'') [] =
     (Ok (example_harvester ''chosen-by-caller''),
      [(''chosen-by-caller'', example_harvester ''chosen-by-caller'')])
   \<and> id_h (example_harvester ''chosen-by-caller'') = ''chosen-by-caller''"
  by (simp add: addEnergyHarvester_def object_spread_def example_harvester_def Let_def)

subsection \<open>Lookup\<close>

text \<open>
  What \<open>getEnergyHarvester\<close> answers in each of its three cases: an error for the empty
  id, and otherwise \<open>Ok\<close> of the store's optional answer, present or absent.
\<close>

lemma getEnergyHarvester_cases:
  "getEnergyHarvester [] s = Err ''Invalid ID for getting an energy harvester.''"
  "i \<noteq> [] \<Longrightarrow> get_btree i s = None \<Longrightarrow> getEnergyHarvester i s = Ok None"
  "i \<noteq> [] \<Longrightarrow> get_btree i s = Some h \<Longrightarrow> getEnergyHarvester i s = Ok (Some h)"
  by (simp_all add: getEnergyHarvester_def)

text \<open>
  C3. The claim: \<open>getEnergyHarvester\<close> signals NotFound for a non-empty id that is absent
  from the store. On the code, the lookup of the absent id \<open>h9\<close>, in the example store and
  in the empty store, is a success that carries the absent value; no error is returned.
\<close>

theorem getEnergyHarvester_absent_is_Ok:
  "getEnergyHarvester ''h9'' example_store = Ok None
   \<and> getEnergyHarvester ''h9'' ([] :: real StableBTreeMap) = Ok None"
  by (simp add: getEnergyHarvester_def example_store_def)

text \<open>
  C1. The claim: for every valid payload, looking up the id of the harvester that
  \<open>addEnergyHarvester\<close> returned gives back that harvester. On the code, a valid payload
  whose \<open>id\<close> is the empty string is stored under the empty key and returned with the
  empty id, and the lookup of that id is refused as an invalid id.
\<close>

theorem addEnergyHarvester_empty_id_no_roundtrip:
  "addEnergyHarvester ''uuid-1'' (example_harvester []) [] =
     (Ok (example_harvester []), [([], example_harvester [])])
   \<and> id_h (example_harvester []) = []
   \<and> getEnergyHarvester (id_h (example_harvester [])) [([], example_harvester [])] =
       Err ''Invalid ID for getting an energy harvester.''"
  by (simp add: addEnergyHarvester_def object_spread_def getEnergyHarvester_def
      example_harvester_def Let_def)

text \<open>
  For a valid payload with a non-empty id, the lookup after the creation succeeds with
  the optional value that holds the created harvester.
\<close>

lemma addEnergyHarvester_then_get:
  assumes "name payload \<noteq> []" "location payload \<noteq> []" "energyRecords payload \<noteq> []"
    and "id_h payload \<noteq> []"
  shows "getEnergyHarvester (id_h payload) (snd (addEnergyHarvester harvesterId payload s)) =
           Ok (Some payload)"
  using assms
  by (simp add: addEnergyHarvester_valid getEnergyHarvester_def get_btree_insert_same)

subsection \<open>Deletion\<close>

text \<open>
  In a scope that binds \<open>match\<close>, deleting a non-empty id that is present returns the
  stored harvester and leaves a store without that id; the other keys keep their
  values. The lookup of the deleted id that follows is then \<open>Ok None\<close>, by
  \<open>getEnergyHarvester_cases\<close>.
\<close>

lemma deleteEnergyHarvester_present:
  assumes "''match'' \<in> set scope" "i \<noteq> []" "get_btree i s = Some h"
  shows "fst (deleteEnergyHarvester scope error i s) = Ok h"
    and "get_btree i (snd (deleteEnergyHarvester scope error i s)) = None"
    and "k \<noteq> i \<Longrightarrow> get_btree k (snd (deleteEnergyHarvester scope error i s)) = get_btree k s"
  using assms
  by (simp_all add: deleteEnergyHarvester_def remove_btree_def get_btree_removed
      get_btree_filter_other)

text \<open>
  C6. The claim: for every id present in the store, \<open>deleteEnergyHarvester\<close> succeeds and
  returns the stored harvester, and \<open>getEnergyHarvester\<close> of the same id then returns
  NotFound. On the code as it is, deleting \<open>h1\<close> from a store that holds it is answered by
  the \<open>catch\<close> of line 175 with the error "Error deleting energy harvester: " followed by
  the text of the ReferenceError for \<open>match\<close>; the store still holds \<open>h1\<close>, and the lookup
  of \<open>h1\<close> that follows succeeds with the harvester.
\<close>

theorem deleteEnergyHarvester_answers_catch:
  "deleteEnergyHarvester module_scope example_error ''h1'' [(''h1'', example_harvester ''h1'')] =
     (Err ''Error deleting energy harvester: ReferenceError: match is not defined'',
      [(''h1'', example_harvester ''h1'')])
   \<and> getEnergyHarvester ''h1'' [(''h1'', example_harvester ''h1'')] =
       Ok (Some (example_harvester ''h1''))"
  by (simp add: deleteEnergyHarvester_def match_unbound getEnergyHarvester_def
      example_error_def)

subsection \<open>Validation\<close>

text \<open>
  C4. A payload with an empty name, an empty location or no energy record is rejected by
  \<open>addEnergyHarvester\<close>, and by \<open>updateEnergyHarvester\<close> called with a non-empty id, with
  the message "Missing required fields in the energy harvester object" and the store
  unchanged, whatever its other fields are; a payload with a non-empty name, a non-empty
  location and at least one record is never answered with that message. This holds in
  every scope, that of the source as it is included.
\<close>

theorem validation_gate:
  "(name p = [] \<or> location p = [] \<or> energyRecords p = [] \<longrightarrow>
      addEnergyHarvester harvesterId p s =
        (Err ''Missing required fields in the energy harvester object'', s))
   \<and> (i \<noteq> [] \<and> (name_p q = [] \<or> location_p q = [] \<or> energyRecords_p q = []) \<longrightarrow>
        updateEnergyHarvester scope error i q s =
          (Err ''Missing required fields in the energy harvester object'', s))
   \<and> (name p \<noteq> [] \<and> location p \<noteq> [] \<and> energyRecords p \<noteq> [] \<longrightarrow>
        fst (addEnergyHarvester harvesterId p s) \<noteq>
          Err ''Missing required fields in the energy harvester object'')
   \<and> (name_p q \<noteq> [] \<and> location_p q \<noteq> [] \<and> energyRecords_p q \<noteq> [] \<longrightarrow>
        fst (updateEnergyHarvester scope error i q s) \<noteq>
          Err ''Missing required fields in the energy harvester object'')"
  by (auto simp: addEnergyHarvester_def updateEnergyHarvester_def Let_def split: option.splits)

theorem validation_gate_witness:
  "addEnergyHarvester ''uuid-1'' ((example_harvester ''h1'')\<lparr>name := []\<rparr>) [] =
     (Err ''Missing required fields in the energy harvester object'', [])
   \<and> updateEnergyHarvester module_scope example_error ''h1''
        example_payload_no_records [] =
       (Err ''Missing required fields in the energy harvester object'', [])
   \<and> fst (addEnergyHarvester ''uuid-1'' (example_harvester ''h1'') []) \<noteq>
       Err ''Missing required fields in the energy harvester object''
   \<and> fst (updateEnergyHarvester module_scope example_error ''h1'' example_payload []) \<noteq>
       Err ''Missing required fields in the energy harvester object''"
  using validation_gate [where p = "(example_harvester ''h1'')\<lparr>name := []\<rparr>"
      and harvesterId = "''uuid-1''" and s = "[]" and i = "''h1''"
      and scope = module_scope and error = example_error
      and q = example_payload_no_records]
    validation_gate [where p = "example_harvester ''h1''"
      and harvesterId = "''uuid-1''" and s = "[]" and i = "''h1''"
      and scope = module_scope and error = example_error
      and q = "example_payload"]
  by (simp add: example_harvester_def example_payload_def example_payload_no_records_def)

subsection \<open>Search\<close>

lemma startsWith_iff: "startsWith str q \<longleftrightarrow> (\<exists>suf. str = q @ suf)"
  by (induction str q rule: startsWith.induct) auto

lemma includes_str_iff: "includes_str str q \<longleftrightarrow> (\<exists>pre suf. str = pre @ q @ suf)"
proof (induction str)
  case Nil
  then show ?case by auto
next
  case (Cons d str)
  show ?case
  proof
    assume "includes_str (d # str) q"
    then consider "startsWith (d # str) q" | "includes_str str q" by auto
    then show "\<exists>pre suf. d # str = pre @ q @ suf"
    proof cases
      case 1
      then obtain suf where "d # str = q @ suf" using startsWith_iff by blast
      then have "d # str = [] @ q @ suf" by simp
      then show ?thesis by blast
    next
      case 2
      then obtain pre suf where "str = pre @ q @ suf" using Cons.IH by blast
      then have "d # str = (d # pre) @ q @ suf" by simp
      then show ?thesis by blast
    qed
  next
    assume "\<exists>pre suf. d # str = pre @ q @ suf"
    then obtain pre suf where e: "d # str = pre @ q @ suf" by blast
    show "includes_str (d # str) q"
    proof (cases pre)
      case Nil
      then have "startsWith (d # str) q" using e startsWith_iff by auto
      then show ?thesis by simp
    next
      case (Cons a pre')
      then have "str = pre' @ q @ suf" using e by simp
      then have "includes_str str q" using Cons.IH by blast
      then show ?thesis by simp
    qed
  qed
qed

lemma includes_str_empty: "includes_str str []"
  by (induction str) auto

text \<open>
  C5. For every store and every query, \<open>searchEnergyHarvesters\<close> succeeds and returns, in
  the store's iteration order, exactly the harvesters whose lower-cased name or lower-cased
  location has the lower-cased query as a substring (some characters, then the query, then
  some characters); the empty query returns every harvester. The result is always \<open>Ok\<close>,
  also when no harvester matches.
\<close>

theorem searchEnergyHarvesters_substring:
  "searchEnergyHarvesters query s =
     Ok (filter
           (\<lambda>h. (\<exists>pre suf. toLowerCase (name h) = pre @ toLowerCase query @ suf) \<or>
                (\<exists>pre suf. toLowerCase (location h) = pre @ toLowerCase query @ suf))
           (values_btree s))
   \<and> searchEnergyHarvesters [] s = Ok (values_btree s)"
proof
  show "searchEnergyHarvesters query s =
     Ok (filter
           (\<lambda>h. (\<exists>pre suf. toLowerCase (name h) = pre @ toLowerCase query @ suf) \<or>
                (\<exists>pre suf. toLowerCase (location h) = pre @ toLowerCase query @ suf))
           (values_btree s))"
    by (simp add: searchEnergyHarvesters_def includes_str_iff Let_def)
  show "searchEnergyHarvesters [] s = Ok (values_btree s)"
    by (simp add: searchEnergyHarvesters_def toLowerCase_def includes_str_empty)
qed

text \<open>
  The search example of the specification (section 8): the harvester named
  "Solar Array 1" is found by "solar", "SOLAR" and "Array", and not by "wind".
\<close>

lemma searchEnergyHarvesters_examples:
  "searchEnergyHarvesters ''solar'' example_store = Ok [snd (example_store ! 1)]"
  "searchEnergyHarvesters ''SOLAR'' example_store = Ok [snd (example_store ! 1)]"
  "searchEnergyHarvesters ''Array'' example_store = Ok [snd (example_store ! 1)]"
  "searchEnergyHarvesters ''wind'' example_store = Ok []"
  "name (snd (example_store ! 1)) = ''Solar Array 1''"
  by code_simp+

subsection \<open>Aggregates\<close>

text \<open>
  The two nested loops add up the powers of the records one after the other, in the
  store's iteration order and, within a harvester, in the order of its records. No law
  of the addition is used.
\<close>

lemma fold_records_power:
  "foldl (\<lambda>totalPower record. totalPower + powerGenerated record) a rs =
     foldl (+) a (map powerGenerated rs)"
  by (induction rs arbitrary: a) auto

lemma fold_harvesters_power:
  "foldl (\<lambda>totalPower harvester.
            foldl (\<lambda>totalPower record. totalPower + powerGenerated record)
              totalPower (energyRecords harvester)) a hs =
     foldl (+) a (map powerGenerated (concat (map energyRecords hs)))"
  by (induction hs arbitrary: a) (auto simp: fold_records_power)

text \<open>
  C7. For every store, \<open>getTotalPowerGenerated\<close> succeeds with the sum of \<open>powerGenerated\<close>
  over every record of every stored harvester: the powers added to 0 one after the other,
  in iteration order, with the addition of the numbers (for doubles, the rounding one
  that the code performs). The result is 0 when the stored harvesters have no record at
  all, and in particular on the empty store; it is never an error.
\<close>

theorem getTotalPowerGenerated_sum:
  fixes s :: "('n::{zero,plus}) StableBTreeMap"
  shows "getTotalPowerGenerated s = Ok (foldl (+) 0 (map powerGenerated (records_of_store s)))
   \<and> (records_of_store s = [] \<longrightarrow> getTotalPowerGenerated s = Ok 0)
   \<and> getTotalPowerGenerated ([] :: 'n StableBTreeMap) = Ok 0
   \<and> (\<forall>e. getTotalPowerGenerated s \<noteq> Err e)"
proof -
  have total:
    "getTotalPowerGenerated s = Ok (foldl (+) 0 (map powerGenerated (records_of_store s)))"
    by (simp add: getTotalPowerGenerated_def fold_harvesters_power records_of_store_def)
  have none: "records_of_store s = [] \<longrightarrow> getTotalPowerGenerated s = Ok 0"
    using total by simp
  have empty: "getTotalPowerGenerated ([] :: 'n StableBTreeMap) = Ok 0"
    by (simp add: getTotalPowerGenerated_def values_btree_def)
  have never: "\<forall>e. getTotalPowerGenerated s \<noteq> Err e"
    using total by simp
  show ?thesis using total none empty never by blast
qed

theorem getTotalPowerGenerated_sum_witness:
  "getTotalPowerGenerated example_store = Ok 60
   \<and> records_of_store [(''h0'', example_idle)] = []
   \<and> getTotalPowerGenerated [(''h0'', example_idle)] = Ok 0"
  using getTotalPowerGenerated_sum [of example_store]
    getTotalPowerGenerated_sum [of "[(''h0'', example_idle)]"]
  by (simp add: records_of_store_def values_btree_def example_store_def example_record_def
      example_idle_def)

text \<open>
  Where the addition is exact (associative, with 0 as its unit), as on the reals, the
  total is the sum of the powers in the usual sense.
\<close>

lemma foldl_plus_sum_list: "foldl (+) a xs = a + sum_list (xs :: 'a::monoid_add list)"
  by (induction xs arbitrary: a) (auto simp: add.assoc)

lemma getTotalPowerGenerated_exact:
  "getTotalPowerGenerated s =
     Ok (sum_list (map powerGenerated (records_of_store s)) :: 'a::monoid_add)"
  by (simp add: getTotalPowerGenerated_def fold_harvesters_power records_of_store_def
      foldl_plus_sum_list)

lemma fold_records_avg:
  "foldl (\<lambda>(totalPower, totalRecords) record.
            (totalPower + powerGenerated record, Suc totalRecords)) (a, n :: nat) rs =
     (foldl (+) a (map powerGenerated rs), n + length rs)"
  by (induction rs arbitrary: a n) auto

lemma fold_harvesters_avg:
  "foldl (\<lambda>acc harvester.
            foldl (\<lambda>(totalPower, totalRecords) record.
                     (totalPower + powerGenerated record, Suc totalRecords))
              acc (energyRecords harvester)) (a, n :: nat) hs =
     (foldl (+) a (map powerGenerated (concat (map energyRecords hs))),
      n + length (concat (map energyRecords hs)))"
  by (induction hs arbitrary: a n) (auto simp: fold_records_avg)

text \<open>On the reals the counter holds the number of its increments.\<close>

lemma number_of_count_exact: "number_of_count n = (of_nat n :: 'a::semiring_1)"
  by (induction n) (auto simp: add.commute)

text \<open>
  C8. For every store, \<open>getAveragePowerGenerated\<close> answers with an error exactly when the
  stored harvesters have no record at all, the error being "No energy records found";
  otherwise it succeeds with the total that \<open>getTotalPowerGenerated\<close> returns divided by
  the number of records, which is not zero then.
\<close>

theorem getAveragePowerGenerated_spec:
  "((\<exists>e. getAveragePowerGenerated s = Err e) \<longleftrightarrow> length (records_of_store s) = 0)
   \<and> (length (records_of_store s) = 0 \<longrightarrow>
        getAveragePowerGenerated s = Err ''No energy records found'')
   \<and> (length (records_of_store s) \<noteq> 0 \<longrightarrow>
        (\<exists>t. getTotalPowerGenerated s = Ok t \<and>
             getAveragePowerGenerated s =
               Ok (t / number_of_count (length (records_of_store s)))))"
proof -
  have nodata: "length (records_of_store s) = 0 \<longrightarrow>
        getAveragePowerGenerated s = Err ''No energy records found''"
    by (simp add: getAveragePowerGenerated_def fold_harvesters_avg records_of_store_def)
  have avg: "length (records_of_store s) \<noteq> 0 \<longrightarrow>
        (\<exists>t. getTotalPowerGenerated s = Ok t \<and>
             getAveragePowerGenerated s =
               Ok (t / number_of_count (length (records_of_store s))))"
    by (simp add: getAveragePowerGenerated_def getTotalPowerGenerated_def fold_harvesters_avg
        fold_harvesters_power records_of_store_def)
  have exact: "(\<exists>e. getAveragePowerGenerated s = Err e) \<longleftrightarrow> length (records_of_store s) = 0"
    using nodata avg by (cases "length (records_of_store s) = 0") auto
  show ?thesis using nodata avg exact by blast
qed

theorem getAveragePowerGenerated_spec_witness:
  "length (records_of_store ([] :: real StableBTreeMap)) = 0
   \<and> getAveragePowerGenerated ([] :: real StableBTreeMap) = Err ''No energy records found''
   \<and> length (records_of_store example_store) = 3
   \<and> getTotalPowerGenerated example_store = Ok 60
   \<and> getAveragePowerGenerated example_store = Ok 20"
  using getAveragePowerGenerated_spec [of "[] :: real StableBTreeMap"]
    getAveragePowerGenerated_spec [of example_store]
  by (simp add: records_of_store_def values_btree_def example_store_def example_record_def
      getTotalPowerGenerated_def number_of_count_exact)

text \<open>
  On the reals the quotient is the total divided by the number of records, as a real.
\<close>

lemma getAveragePowerGenerated_real:
  "length (records_of_store s) \<noteq> 0 \<Longrightarrow>
     getAveragePowerGenerated s =
       Ok (sum_list (map powerGenerated (records_of_store s)) /
           real (length (records_of_store s)))"
  by (simp add: getAveragePowerGenerated_def fold_harvesters_avg records_of_store_def
      foldl_plus_sum_list number_of_count_exact)

subsection \<open>Invariant of the store\<close>

text \<open>
  C9. In every store reachable from the empty one by calls of \<open>addEnergyHarvester\<close>,
  \<open>updateEnergyHarvester\<close> and \<open>deleteEnergyHarvester\<close>, every key equals the \<open>id\<close> field
  of the harvester stored under it.
\<close>

theorem reachable_key_is_id: "reachable s \<Longrightarrow> \<forall>(k, h) \<in> set s. k = id_h h"
proof (induction rule: reachable.induct)
  case reachable_init
  then show ?case by simp
next
  case (reachable_add s harvesterId payload)
  then show ?case
    using set_insert_btree [of "id_h payload" payload s]
    by (auto simp: addEnergyHarvester_def object_spread_all)
next
  case (reachable_update s scope error i payload)
  show ?case
  proof (cases "get_btree i s")
    case None
    then show ?thesis using reachable_update.IH
      by (simp add: updateEnergyHarvester_def)
  next
    case (Some e)
    then have "(i, e) \<in> set s" by (rule get_btree_mem)
    then have "id_h e = i" using reachable_update.IH by auto
    then show ?thesis
      using Some reachable_update.IH
        set_insert_btree [of i "e\<lparr>name := name_p payload, location := location_p payload,
                                  energyRecords := energyRecords_p payload\<rparr>" s]
      by (auto simp: updateEnergyHarvester_def Let_def)
  qed
next
  case (reachable_delete s scope error i)
  then show ?case
    by (auto simp: deleteEnergyHarvester_def remove_btree_def split: option.splits)
qed

theorem reachable_key_is_id_witness:
  "snd (updateEnergyHarvester module_scope example_error ''h1'' example_payload
          (snd (addEnergyHarvester ''uuid-1'' (example_harvester ''h1'') []))) =
     [(''h1'', example_harvester ''h1'')]
   \<and> reachable [(''h1'', example_harvester ''h1'')]
   \<and> ''h1'' = id_h (example_harvester ''h1'')"
proof -
  let ?s = "snd (updateEnergyHarvester module_scope example_error ''h1'' example_payload
          (snd (addEnergyHarvester ''uuid-1'' (example_harvester ''h1'') [])))"
  have r: "reachable ?s"
    by (intro reachable.intros)
  have e: "?s = [(''h1'', example_harvester ''h1'')]"
    by (simp add: updateEnergyHarvester_as_is addEnergyHarvester_def object_spread_def
        example_harvester_def example_payload_def Let_def)
  show ?thesis using reachable_key_is_id [OF r] r e by (simp add: example_harvester_def)
qed

subsection \<open>Failed updates\<close>

text \<open>
  C10. Whenever \<open>updateEnergyHarvester\<close> answers with an error, the store after the call
  is the store before it; and it does answer with an error when the id is empty, when
  the payload fails the validation, and when no harvester is stored under the id. This
  holds in every scope, that of the source as it is included.
\<close>

theorem updateEnergyHarvester_error_keeps_store:
  "(fst (updateEnergyHarvester scope error i payload s) = Err e \<longrightarrow>
      snd (updateEnergyHarvester scope error i payload s) = s)
   \<and> (i = [] \<or> name_p payload = [] \<or> location_p payload = []
        \<or> energyRecords_p payload = [] \<or> get_btree i s = None \<longrightarrow>
      (\<exists>e'. fst (updateEnergyHarvester scope error i payload s) = Err e'))"
  by (auto simp: updateEnergyHarvester_def Let_def split: if_splits option.splits)

theorem updateEnergyHarvester_error_keeps_store_witness:
  "fst (updateEnergyHarvester module_scope example_error [] example_payload example_store) =
     Err ''Invalid ID for updating an energy harvester.''
   \<and> snd (updateEnergyHarvester module_scope example_error [] example_payload example_store) =
       example_store
   \<and> fst (updateEnergyHarvester module_scope example_error ''h1''
            (example_payload\<lparr>name_p := []\<rparr>) example_store) =
       Err ''Missing required fields in the energy harvester object''
   \<and> snd (updateEnergyHarvester module_scope example_error ''h1''
            (example_payload\<lparr>name_p := []\<rparr>) example_store) = example_store
   \<and> fst (updateEnergyHarvester module_scope example_error ''h9'' example_payload
            example_store) =
       Err ''Error updating energy harvester: ReferenceError: match is not defined''
   \<and> snd (updateEnergyHarvester module_scope example_error ''h9'' example_payload
            example_store) = example_store"
proof -
  have a: "fst (updateEnergyHarvester module_scope example_error [] example_payload
               example_store) =
     Err ''Invalid ID for updating an energy harvester.''"
    by (simp add: updateEnergyHarvester_as_is)
  have b: "fst (updateEnergyHarvester module_scope example_error ''h1''
               (example_payload\<lparr>name_p := []\<rparr>) example_store) =
       Err ''Missing required fields in the energy harvester object''"
    by (simp add: updateEnergyHarvester_as_is)
  have c: "fst (updateEnergyHarvester module_scope example_error ''h9'' example_payload
               example_store) =
       Err ''Error updating energy harvester: ReferenceError: match is not defined''"
    by (simp add: updateEnergyHarvester_as_is example_payload_def example_error_def)
  show ?thesis
    using a b c
      updateEnergyHarvester_error_keeps_store [of module_scope example_error "[]"
        example_payload example_store "''Invalid ID for updating an energy harvester.''"]
      updateEnergyHarvester_error_keeps_store [of module_scope example_error "''h1''"
        "example_payload\<lparr>name_p := []\<rparr>" example_store
        "''Missing required fields in the energy harvester object''"]
      updateEnergyHarvester_error_keeps_store [of module_scope example_error "''h9''"
        example_payload example_store
        "''Error updating energy harvester: ReferenceError: match is not defined''"]
    by simp
qed

end
